theory Spec2Isabelle
  imports Main
begin

section \<open>The SQL guard and the bounded runner of app.py\<close>

text \<open>
  The development embeds two functions of \<^verbatim>\<open>src/app.py\<close>: \<^verbatim>\<open>guard_sql\<close>
  (lines 82-93, with the three compiled patterns of lines 78-80) and \<^verbatim>\<open>run_sql\<close>
  (lines 95-127). Everything else in the file is web plumbing.
\<close>

subsection \<open>Python text\<close>

text \<open>
  A Python \<^verbatim>\<open>str\<close> is a sequence of Unicode code points, so a text is a list of
  natural numbers. \<open>py\<close> reads an ASCII literal as such a text. Characters that an
  Isabelle literal cannot hold are written by number: 92 is the backslash, 34 the
  double quote, 59 the semicolon, 10 the line feed, 110 the letter n.
\<close>

type_synonym pystr = "nat list"

definition py :: "string \<Rightarrow> pystr" where
  "py s = map of_char s"

text \<open>
  \<^verbatim>\<open>str.strip()\<close> without argument removes the characters for which
  \<^verbatim>\<open>str.isspace\<close> holds: U+0009-000D, U+001C-0020, U+0085, U+00A0, U+1680,
  U+2000-200A, U+2028, U+2029, U+202F, U+205F and U+3000.
\<close>

definition is_space :: "nat \<Rightarrow> bool" where
  "is_space c \<longleftrightarrow>
     (9 \<le> c \<and> c \<le> 13) \<or> (28 \<le> c \<and> c \<le> 32) \<or> c = 133 \<or> c = 160 \<or> c = 5760 \<or>
     (8192 \<le> c \<and> c \<le> 8202) \<or> c = 8232 \<or> c = 8233 \<or> c = 8239 \<or> c = 8287 \<or> c = 12288"

definition strip :: "pystr \<Rightarrow> pystr" where
  "strip s = rev (dropWhile is_space (rev (dropWhile is_space s)))"

text \<open>\<^verbatim>\<open>s.rstrip(';')\<close> removes every trailing semicolon.\<close>

definition rstrip_semicolons :: "pystr \<Rightarrow> pystr" where
  "rstrip_semicolons s = rev (dropWhile (\<lambda>c. c = 59) (rev s))"

text \<open>\<^verbatim>\<open>str(int(limit))\<close>: the decimal digits, with a minus sign below zero.\<close>

fun digits :: "nat \<Rightarrow> pystr" where
  "digits n = (if n < 10 then [48 + n] else digits (n div 10) @ [48 + n mod 10])"

declare digits.simps [simp del]

definition str_int :: "int \<Rightarrow> pystr" where
  "str_int i = (if i < 0 then 45 # digits (nat (- i)) else digits (nat i))"

text \<open>
  \<^verbatim>\<open>rows[:limit]\<close>: the first \<open>limit\<close> elements, and for a negative \<open>limit\<close> all
  but the last \<open>- limit\<close>.
\<close>

definition slice_to :: "int \<Rightarrow> 'a list \<Rightarrow> 'a list" where
  "slice_to n xs = (if 0 \<le> n then take (nat n) xs else take (length xs - nat (- n)) xs)"

subsection \<open>Regular expressions as the module \<^verbatim>\<open>re\<close> reads them\<close>

text \<open>
  All four patterns of the source are compiled with \<^verbatim>\<open>re.IGNORECASE\<close> and hold
  ASCII characters only. Under that flag a literal matches a code point when their
  ASCII lower cases agree; besides, \<^verbatim>\<open>s\<close> matches U+017F, \<^verbatim>\<open>k\<close> matches U+212A
  and \<^verbatim>\<open>i\<close> matches U+0130 and U+0131.
\<close>

definition to_lower :: "nat \<Rightarrow> nat" where
  "to_lower c = (if 65 \<le> c \<and> c \<le> 90 then c + 32 else c)"

definition ic_match :: "nat \<Rightarrow> nat \<Rightarrow> bool" where
  "ic_match p x \<longleftrightarrow>
     (let lp = to_lower p in
      to_lower x = lp \<or> (lp = 115 \<and> x = 383) \<or> (lp = 107 \<and> x = 8490) \<or>
      (lp = 105 \<and> (x = 304 \<or> x = 305)))"

datatype rx =
    Eps
  | Lit nat
  | Dot
  | Seq rx rx
  | Alt rx rx
  | Star rx

text \<open>
  \<open>rx_after r s\<close> lists what is left of \<open>s\<close> after each way of matching \<open>r\<close> at
  its front, as a backtracking matcher tries them. \<open>Dot\<close> is \<^verbatim>\<open>.\<close> without
  \<^verbatim>\<open>re.DOTALL\<close>: any code point but the line feed. A repetition gives up an
  iteration that consumed nothing.
\<close>

function rx_after :: "rx \<Rightarrow> pystr \<Rightarrow> pystr list" where
  "rx_after Eps s = [s]"
| "rx_after (Lit p) [] = []"
| "rx_after (Lit p) (x # xs) = (if ic_match p x then [xs] else [])"
| "rx_after Dot [] = []"
| "rx_after Dot (x # xs) = (if x \<noteq> 10 then [xs] else [])"
| "rx_after (Seq a b) s = concat (map (rx_after b) (rx_after a s))"
| "rx_after (Alt a b) s = rx_after a s @ rx_after b s"
| "rx_after (Star a) s =
     s # concat (map (rx_after (Star a)) (filter (\<lambda>u. length u < length s) (rx_after a s)))"
  by pat_completeness auto
termination
  by (relation "measures [\<lambda>(r, s). size r, \<lambda>(r, s). length s]") auto

declare rx_after.simps [simp del]

text \<open>\<^verbatim>\<open>pattern.search(s)\<close> with a leading \<^verbatim>\<open>^\<close> (no \<^verbatim>\<open>re.MULTILINE\<close>): a match at position 0.\<close>

definition rx_match_start :: "rx \<Rightarrow> pystr \<Rightarrow> bool" where
  "rx_match_start r s \<longleftrightarrow> rx_after r s \<noteq> []"

text \<open>\<^verbatim>\<open>pattern.search(s)\<close>: a match starting at some position.\<close>

fun rx_search :: "rx \<Rightarrow> pystr \<Rightarrow> bool" where
  "rx_search r [] \<longleftrightarrow> rx_after r [] \<noteq> []"
| "rx_search r (x # xs) \<longleftrightarrow> rx_after r (x # xs) \<noteq> [] \<or> rx_search r xs"

text \<open>Pattern syntax: a run of literals, \<^verbatim>\<open>(w|v|...)\<close>, \<^verbatim>\<open>r+\<close>, \<^verbatim>\<open>r?\<close>.\<close>

definition rx_seq :: "rx list \<Rightarrow> rx" where
  "rx_seq rs = foldr Seq rs Eps"

definition rx_str :: "string \<Rightarrow> rx" where
  "rx_str w = rx_seq (map (\<lambda>c. Lit (of_char c)) w)"

definition rx_words :: "string \<Rightarrow> string list \<Rightarrow> rx" where
  "rx_words w ws = foldr (\<lambda>v r. Alt (rx_str v) r) (butlast (w # ws)) (rx_str (last (w # ws)))"

definition rx_plus :: "rx \<Rightarrow> rx" where
  "rx_plus r = Seq r (Star r)"

definition rx_opt :: "rx \<Rightarrow> rx" where
  "rx_opt r = Alt r Eps"

subsection \<open>The guard\<close>

text \<open>
  The patterns are raw string literals in which every backslash is written twice, so
  the pattern text holds \<^verbatim>\<open>\\s\<close>, \<^verbatim>\<open>\\b\<close> and \<^verbatim>\<open>\\.\<close>: an escaped backslash (a
  literal backslash) followed by an ordinary \<^verbatim>\<open>s\<close>, \<^verbatim>\<open>b\<close> or \<^verbatim>\<open>.\<close>.

  Line 78: \<^verbatim>\<open>r'^(\\s*(with|select)\\b)'\<close>, searched from position 0.
\<close>

definition SQL_ALLOW_RE :: rx where
  "SQL_ALLOW_RE =
     rx_seq [Lit 92, Star (Lit 115), rx_words ''with'' [''select''], Lit 92, Lit 98]"

text \<open>
  Line 79:
  \<^verbatim>\<open>r'\\b(insert|update|delete|drop|alter|truncate|create|grant|revoke|commit|rollback)\\b'\<close>.
\<close>

definition SQL_FORBID_RE :: rx where
  "SQL_FORBID_RE =
     rx_seq [Lit 92, Lit 98,
       rx_words ''insert'' [''update'', ''delete'', ''drop'', ''alter'', ''truncate'',
         ''create'', ''grant'', ''revoke'', ''commit'', ''rollback''],
       Lit 92, Lit 98]"

text \<open>
  Line 80: \<^verbatim>\<open>r'from\\s+public\\s*\\.\\s*\"?PurchaseAllView\"?'\<close>; here \<^verbatim>\<open>\"\<close> is an
  escaped double quote.
\<close>

definition SQL_VIEW_RE :: rx where
  "SQL_VIEW_RE =
     rx_seq [rx_str ''from'', Lit 92, rx_plus (Lit 115), rx_str ''public'',
       Lit 92, Star (Lit 115), Lit 92, Dot, Lit 92, Star (Lit 115),
       rx_opt (Lit 34), rx_str ''PurchaseAllView'', rx_opt (Lit 34)]"

text \<open>
  \<^verbatim>\<open>guard_sql\<close> raises \<^verbatim>\<open>ValueError\<close> with one of four messages, in this order
  (lines 85, 87, 89, 92): the text must start with SELECT/WITH; DML/DDL operations are
  forbidden; only queries to the view \<^verbatim>\<open>public."PurchaseAllView"\<close> are allowed;
  several commands are forbidden. The constructors name the four raises.
\<close>

datatype guard_error =
    NotAReadStatement
  | ForbiddenOperation
  | UnauthorizedTarget
  | MultipleStatements

text \<open>\<^verbatim>\<open>sql_text.strip()[:-1]\<close> is \<open>butlast (strip sql_text)\<close>, empty for the empty text.\<close>

definition guard_sql :: "pystr \<Rightarrow> guard_error + pystr" where
  "guard_sql sql_text =
     (if \<not> rx_match_start SQL_ALLOW_RE sql_text then Inl NotAReadStatement
      else if rx_search SQL_FORBID_RE sql_text then Inl ForbiddenOperation
      else if \<not> rx_search SQL_VIEW_RE sql_text then Inl UnauthorizedTarget
      else if 59 \<in> set (butlast (strip sql_text)) then Inl MultipleStatements
      else Inr (strip sql_text))"

subsection \<open>The data store as \<^verbatim>\<open>run_sql\<close> sees it\<close>

text \<open>
  \<^verbatim>\<open>run_sql\<close> talks to the outside through the driver module \<^verbatim>\<open>psycopg2\<close>. The
  world fixes what each of its calls does: whether the module was imported at all
  (lines 24-28), and for \<^verbatim>\<open>connect\<close>, the assignment to \<^verbatim>\<open>autocommit\<close>,
  \<^verbatim>\<open>cursor\<close>, \<^verbatim>\<open>execute\<close>, \<^verbatim>\<open>fetchall\<close> and \<^verbatim>\<open>close\<close> whether it raises
  (\<open>Some\<close> of the exception's text) or goes through. What \<^verbatim>\<open>execute\<close> and
  \<^verbatim>\<open>fetchall\<close> do depends on the statement sent. A fetched row is a
  \<^verbatim>\<open>RealDictRow\<close>: its columns in order, each with its value. The clock reading is the
  world's too.
\<close>

type_synonym 'v row = "(pystr \<times> 'v) list"

record 'v world =
  driver_loaded :: bool
  connect_fault :: "pystr option"
  autocommit_fault :: "pystr option"
  cursor_fault :: "pystr option"
  execute_fault :: "pystr \<Rightarrow> pystr option"
  fetchall_result :: "pystr \<Rightarrow> pystr + 'v row list"
  close_fault :: "pystr option"
  clock_elapsed_ms :: int

text \<open>
  The state of the data store: how many connections are open, and the calls received
  so far, oldest first. A connect that raises leaves no connection; a close that
  raises is taken to leave the connection open.
\<close>

datatype event =
    Connect
  | SetAutocommit
  | OpenCursor
  | Execute pystr
  | FetchAll
  | CloseCursor
  | CloseConn

record store =
  open_conns :: nat
  calls :: "event list"

definition emit :: "event \<Rightarrow> store \<Rightarrow> store" where
  "emit e st = st\<lparr>calls := calls st @ [e]\<rparr>"

text \<open>
  Lines 107-109: the cursor block. The cursor is closed when the block is left, also
  by an exception.
\<close>

definition cursor_block :: "'v world \<Rightarrow> pystr \<Rightarrow> store \<Rightarrow> (pystr + 'v row list) \<times> store" where
  "cursor_block w sql st =
     (let st1 = emit OpenCursor st in
      case cursor_fault w of
        Some m \<Rightarrow> (Inl m, st1)
      | None \<Rightarrow>
          let st2 = emit (Execute sql) st1 in
          (case execute_fault w sql of
             Some m \<Rightarrow> (Inl m, emit CloseCursor st2)
           | None \<Rightarrow> (fetchall_result w sql, emit CloseCursor (emit FetchAll st2))))"

text \<open>
  Lines 105-109: the body of the \<^verbatim>\<open>try\<close> up to the fetch. The middle component
  tells whether \<^verbatim>\<open>conn\<close> was bound, that is whether \<^verbatim>\<open>connect\<close> returned.
\<close>

definition try_body :: "'v world \<Rightarrow> pystr \<Rightarrow> store \<Rightarrow> (pystr + 'v row list) \<times> bool \<times> store" where
  "try_body w sql st =
     (let st1 = emit Connect st in
      case connect_fault w of
        Some m \<Rightarrow> (Inl m, False, st1)
      | None \<Rightarrow>
          let st2 = emit SetAutocommit (st1\<lparr>open_conns := open_conns st1 + 1\<rparr>) in
          (case autocommit_fault w of
             Some m \<Rightarrow> (Inl m, True, st2)
           | None \<Rightarrow> (let (r, st3) = cursor_block w sql st2 in (r, True, st3))))"

text \<open>Lines 123-127: \<^verbatim>\<open>finally\<close> closes a bound connection and swallows what that raises.\<close>

definition finally_close :: "'v world \<Rightarrow> bool \<Rightarrow> store \<Rightarrow> store" where
  "finally_close w conn st =
     (if conn then
        (let st1 = emit CloseConn st in
         case close_fault w of
           Some m \<Rightarrow> st1
         | None \<Rightarrow> st1\<lparr>open_conns := open_conns st1 - 1\<rparr>)
      else st)"

text \<open>
  What \<^verbatim>\<open>run_sql\<close> returns: the dictionary of lines 113-120, or a dictionary with the
  single key \<^verbatim>\<open>error\<close>, whose text is fixed (line 97: the driver is not installed)
  or that of the exception caught (line 122).
\<close>

datatype failure =
    DriverMissing
  | DbError pystr

datatype 'v exec_result =
    Success (elapsed_ms: int) (row_count: nat) (preview_limit: int)
      (columns: "pystr list") (rows: "'v row list")
  | Failure failure

text \<open>Line 100: \<^verbatim>\<open>r'\\blimit\\b'\<close>, again with the doubled backslashes.\<close>

definition LIMIT_RE :: rx where
  "LIMIT_RE = rx_seq [Lit 92, Lit 98, rx_str ''limit'', Lit 92, Lit 98]"

text \<open>
  Lines 100-101. The f-string is not raw, so its \<^verbatim>\<open>\\n\<close> is a backslash and the
  letter n (code points 92 and 110), not a line feed.
\<close>

definition force_limit :: "pystr \<Rightarrow> int \<Rightarrow> pystr" where
  "force_limit sql limit =
     (if \<not> rx_search LIMIT_RE sql
      then rstrip_semicolons sql @ [92, 110] @ py ''LIMIT '' @ str_int limit @ py '';''
      else sql)"

text \<open>
  \<^verbatim>\<open>run_sql\<close>, lines 95-127. The call of \<^verbatim>\<open>guard_sql\<close> stands before the \<^verbatim>\<open>try\<close>,
  so its \<^verbatim>\<open>ValueError\<close> leaves \<^verbatim>\<open>run_sql\<close>: the result is \<open>Inl\<close> of the error
  raised, or \<open>Inr\<close> of the dictionary returned.
\<close>

definition run_sql ::
  "'v world \<Rightarrow> pystr \<Rightarrow> int \<Rightarrow> store \<Rightarrow> (guard_error + 'v exec_result) \<times> store" where
  "run_sql w sql_text limit st =
     (if \<not> driver_loaded w then (Inr (Failure DriverMissing), st)
      else case guard_sql sql_text of
        Inl e \<Rightarrow> (Inl e, st)
      | Inr sql0 \<Rightarrow>
          let sql = force_limit sql0 limit;
              (r, conn, st1) = try_body w sql st;
              ret = (case r of
                       Inl m \<Rightarrow> Failure (DbError m)
                     | Inr fetched \<Rightarrow>
                         let preview = slice_to limit fetched in
                         Success (clock_elapsed_ms w) (length fetched) limit
                           (case preview of [] \<Rightarrow> [] | r0 # _ \<Rightarrow> map fst r0) preview)
          in (Inr ret, finally_close w conn st1))"

subsection \<open>The single-statement rule in the words of the specification\<close>

text \<open>
  This definition follows the specification, not the source: "strip one trailing
  semicolon if present". The source takes \<^verbatim>\<open>[:-1]\<close>, which drops the last
  character whatever it is.
\<close>

definition spec_strip_one_semicolon :: "pystr \<Rightarrow> pystr" where
  "spec_strip_one_semicolon s = (if s \<noteq> [] \<and> last s = 59 then butlast s else s)"

subsection \<open>Concrete inputs\<close>

text \<open>
  A text the guard lets through:
  \<^verbatim>\<open>\select\b * from\spublic\\.\PurchaseAllView\<close>.
\<close>

definition accepted_text :: pystr where
  "accepted_text =
     92 # py ''select'' @ 92 # py ''b * from'' @ 92 # py ''spublic'' @ [92, 92] @
     py ''.'' @ 92 # py ''PurchaseAllView''"

text \<open>A world in which the driver is loaded and every call goes through.\<close>

definition quiet_world :: "nat row list \<Rightarrow> nat world" where
  "quiet_world fetched =
     \<lparr>driver_loaded = True, connect_fault = None, autocommit_fault = None,
      cursor_fault = None, execute_fault = (\<lambda>_. None),
      fetchall_result = (\<lambda>_. Inr fetched), close_fault = None, clock_elapsed_ms = 7\<rparr>"

definition three_rows :: "nat row list" where
  "three_rows = [[(py ''id'', 1)], [(py ''id'', 2)], [(py ''id'', 3)]]"

definition fresh_store :: store where
  "fresh_store = \<lparr>open_conns = 0, calls = []\<rparr>"

text \<open>Worlds in which one call raises: the connect, the execute, the fetch.\<close>

definition refusing_world :: "nat world" where
  "refusing_world = (quiet_world [])\<lparr>connect_fault := Some (py ''connection refused'')\<rparr>"

definition rejecting_world :: "nat world" where
  "rejecting_world = (quiet_world [])\<lparr>execute_fault := (\<lambda>_. Some (py ''syntax error''))\<rparr>"

definition broken_fetch_world :: "nat world" where
  "broken_fetch_world = (quiet_world [])\<lparr>fetchall_result := (\<lambda>_. Inl (py ''server closed''))\<rparr>"

section \<open>Properties\<close>

subsection \<open>Evaluating the guard\<close>

lemmas rx_eval = SQL_ALLOW_RE_def SQL_FORBID_RE_def SQL_VIEW_RE_def LIMIT_RE_def
  rx_seq_def rx_str_def rx_words_def rx_plus_def rx_opt_def rx_match_start_def
  rx_after.simps ic_match_def to_lower_def py_def

lemmas run_unfold = run_sql_def try_body_def cursor_block_def finally_close_def emit_def

lemma ic_match_backslash: "ic_match 92 x \<longleftrightarrow> x = 92"
  by (auto simp: ic_match_def to_lower_def)

lemma rx_after_Lit_Seq:
  "rx_after (Seq (Lit p) r) t \<noteq> [] \<Longrightarrow> \<exists>x u. t = x # u \<and> ic_match p x"
  by (cases t) (simp_all add: rx_after.simps(2,3,6) split: if_splits)

text \<open>The allow pattern starts with a literal backslash, and so does every text it matches.\<close>

lemma allow_needs_backslash: "rx_match_start SQL_ALLOW_RE t \<Longrightarrow> \<exists>u. t = 92 # u"
proof -
  assume m: "rx_match_start SQL_ALLOW_RE t"
  obtain R where "SQL_ALLOW_RE = Seq (Lit 92) R"
    by (simp add: SQL_ALLOW_RE_def rx_seq_def)
  with m have "rx_after (Seq (Lit 92) R) t \<noteq> []"
    by (simp add: rx_match_start_def)
  from rx_after_Lit_Seq [OF this] show ?thesis
    by (auto simp: ic_match_backslash)
qed

lemma guard_without_backslash:
  "\<not> (\<exists>u. t = 92 # u) \<Longrightarrow> guard_sql t = Inl NotAReadStatement"
  using allow_needs_backslash [of t] by (auto simp: guard_sql_def)

lemma guard_accepted_text: "guard_sql accepted_text = Inr accepted_text"
  by (simp add: guard_sql_def accepted_text_def rx_eval strip_def is_space_def)

lemma force_limit_accepted_text:
  "force_limit accepted_text l =
     accepted_text @ [92, 110] @ py ''LIMIT '' @ str_int l @ py '';''"
  by (simp add: force_limit_def accepted_text_def rx_eval rstrip_semicolons_def)

lemma str_int_2: "str_int 2 = py ''2''"
  by (simp add: str_int_def digits.simps py_def)

lemma str_int_10: "str_int 10 = py ''10''"
  by (simp add: str_int_def digits.simps py_def)

lemma semicolon_butlast:
  "59 \<in> set (butlast s) \<longleftrightarrow> 59 \<in> set (spec_strip_one_semicolon s)"
proof (cases "s = []")
  case True
  then show ?thesis by (simp add: spec_strip_one_semicolon_def)
next
  case False
  then have "s = butlast s @ [last s]" by simp
  then have "set s = set (butlast s) \<union> {last s}"
    by (metis Un_insert_right append_Nil2 list.simps(15) set_append empty_set)
  then show ?thesis by (auto simp: spec_strip_one_semicolon_def)
qed

subsection \<open>The validator\<close>

text \<open>
  Claim C10. For the empty text and for every text made of whitespace only,
  \<^verbatim>\<open>guard_sql\<close> raises its first error, the one of the leading-clause rule
  (\<open>NotAReadStatement\<close>), and nothing else; no later rule sees such a text.
\<close>

theorem whitespace_only_rejected:
  "\<forall>c \<in> set t. is_space c \<Longrightarrow> guard_sql t = Inl NotAReadStatement"
proof (rule guard_without_backslash)
  assume ws: "\<forall>c \<in> set t. is_space c"
  show "\<not> (\<exists>u. t = 92 # u)"
  proof
    assume "\<exists>u. t = 92 # u"
    then have "92 \<in> set t" by auto
    with ws have "is_space 92" by blast
    then show False by (simp add: is_space_def)
  qed
qed

theorem whitespace_only_rejected_witness:
  "is_space 32 \<and> is_space 9 \<and> is_space 10 \<and> is_space 160 \<and>
   guard_sql [32, 9, 10, 160] = Inl NotAReadStatement \<and> guard_sql [] = Inl NotAReadStatement"
proof -
  have a: "\<forall>c \<in> set [32, 9, 10, 160]. is_space c" by (simp add: is_space_def)
  have b: "\<forall>c \<in> set ([]::pystr). is_space c" by simp
  from whitespace_only_rejected [OF a] whitespace_only_rejected [OF b] a
  show ?thesis by simp
qed

text \<open>
  The fourth check, on the texts that reach it, agrees with the rule in the words of
  the specification: a semicolon left after trimming and stripping one trailing
  semicolon raises \<open>MultipleStatements\<close>, and otherwise the trimmed text is
  returned. By \<open>allow_needs_backslash\<close> the texts that reach it start with a
  backslash.
\<close>

lemma fourth_check_strips_one_semicolon:
  assumes "rx_match_start SQL_ALLOW_RE t" and "\<not> rx_search SQL_FORBID_RE t"
    and "rx_search SQL_VIEW_RE t"
  shows "(59 \<in> set (spec_strip_one_semicolon (strip t)) \<longrightarrow> guard_sql t = Inl MultipleStatements) \<and>
         (59 \<notin> set (spec_strip_one_semicolon (strip t)) \<longrightarrow> guard_sql t = Inr (strip t)) \<and>
         (\<forall>u. strip t = u @ [59] \<and> 59 \<notin> set u \<longrightarrow> guard_sql t = Inr (strip t))"
  using assms by (auto simp: guard_sql_def semicolon_butlast spec_strip_one_semicolon_def)

text \<open>
  Claim C9 says that a text which passed the first three rules and holds a semicolon
  before its end is rejected with \<open>MultipleStatements\<close>. The source does not do so:
  the text
  \<^verbatim>\<open>SELECT 1 FROM public."PurchaseAllView"; SELECT 2\<close>
  starts with \<^verbatim>\<open>SELECT\<close>, holds no forbidden verb and reads the view, and the
  guard rejects it by its first check, with \<open>NotAReadStatement\<close>: the allow pattern
  asks for a leading backslash, so the fourth check is not reached.
\<close>

theorem two_statements_reported_as_not_read:
  "guard_sql (py ''SELECT 1 FROM public.'' @ 34 # py ''PurchaseAllView'' @ 34 # py ''; SELECT 2'') =
     Inl NotAReadStatement"
  by (rule guard_without_backslash) (simp add: py_def)

text \<open>
  Claim C2 says that a text which starts with SELECT or WITH and holds a forbidden verb
  is rejected with \<open>ForbiddenOperation\<close>. The source does not do so: the allow
  pattern asks for a leading backslash, so the text below, which starts with
  \<^verbatim>\<open>select\<close> and holds \<^verbatim>\<open>drop\<close>, is rejected by the first check already, with
  \<open>NotAReadStatement\<close>.
\<close>

theorem forbidden_verb_reported_as_not_read:
  "guard_sql (py ''select id from public.PurchaseAllView; drop table x;'') = Inl NotAReadStatement"
  by (rule guard_without_backslash) (simp add: py_def)

text \<open>
  Claim C7 says that every text that does not start, after whitespace, with the word
  WITH or SELECT is rejected with \<open>NotAReadStatement\<close>. The source does not do so:
  the text
  \<^verbatim>\<open>\WITH\B x from\sPublic\\!\"purchaseallview\<close>
  starts with a backslash and the guard returns it.
\<close>

theorem backslash_text_accepted:
  "guard_sql (92 # py ''WITH'' @ 92 # py ''B x from'' @ 92 # py ''sPublic'' @ [92, 92] @ py ''!'' @ 92 # 34 # py ''purchaseallview'')
   = Inr (92 # py ''WITH'' @ 92 # py ''B x from'' @ 92 # py ''sPublic'' @ [92, 92] @ py ''!'' @ 92 # 34 # py ''purchaseallview'')"
  by (simp add: guard_sql_def rx_eval strip_def is_space_def)

text \<open>
  Claim C8 says that a read statement which names another object than the view is
  rejected with \<open>UnauthorizedTarget\<close>. The source does not do so: the text below
  starts with \<^verbatim>\<open>SELECT\<close>, holds no forbidden verb and reads another table, and the
  guard rejects it by its first check, with \<open>NotAReadStatement\<close>.
\<close>

theorem other_table_reported_as_not_read:
  "guard_sql (py ''SELECT * FROM public.other_table'') = Inl NotAReadStatement"
  by (rule guard_without_backslash) (simp add: py_def)

subsection \<open>The runner\<close>

text \<open>
  What \<^verbatim>\<open>run_sql\<close> does with a text the guard rejects: the data store is left
  as it was, and the guard's error leaves \<^verbatim>\<open>run_sql\<close> as it was raised, unless
  the driver is not loaded and line 97 has returned before the guard is called.
\<close>

lemma run_sql_on_rejected_text:
  "guard_sql t = Inl e \<Longrightarrow>
   run_sql w t limit st = (if driver_loaded w then Inl e else Inr (Failure DriverMissing), st)"
  by (simp add: run_sql_def)

text \<open>
  Claim C1 says that for a rejected text \<^verbatim>\<open>run_sql\<close> returns an error dictionary
  and does not raise. The source does not do so: \<^verbatim>\<open>guard_sql\<close> is called on line
  98, before the \<^verbatim>\<open>try\<close> of line 104, so with the driver loaded the text below
  makes \<^verbatim>\<open>run_sql\<close> raise the guard's \<^verbatim>\<open>ValueError\<close>. The data store is not
  contacted, as the claim says.
\<close>

theorem rejected_text_not_returned:
  "run_sql (quiet_world []) (py ''DELETE FROM public.PurchaseAllView'') 10 fresh_store =
     (Inl NotAReadStatement, fresh_store)"
proof -
  have "guard_sql (py ''DELETE FROM public.PurchaseAllView'') = Inl NotAReadStatement"
    by (rule guard_without_backslash) (simp add: py_def)
  then show ?thesis by (simp add: run_sql_def quiet_world_def)
qed

text \<open>
  Claim C3. For every limit of at least 1 and whatever the data store returns, the
  \<^verbatim>\<open>rows\<close> of a success result are the first \<open>limit\<close> of the rows fetched: at
  most \<open>limit\<close> of them, as many as the smaller of \<^verbatim>\<open>row_count\<close> and
  \<^verbatim>\<open>preview_limit\<close>, while \<^verbatim>\<open>row_count\<close> is the number of rows fetched and
  \<^verbatim>\<open>preview_limit\<close> is the limit.
\<close>

theorem preview_bounded:
  assumes "1 \<le> limit"
    and "run_sql w t limit st = (Inr (Success el rc pl cols rws), st')"
  shows "length rws \<le> nat limit \<and> pl = limit \<and> length rws = min rc (nat pl) \<and>
         (\<exists>sql fetched. guard_sql t = Inr sql \<and>
            fetchall_result w (force_limit sql limit) = Inr fetched \<and>
            rc = length fetched \<and> rws = take (nat limit) fetched)"
  using assms
  by (auto simp: run_unfold slice_to_def Let_def split: if_splits sum.splits option.splits)

theorem preview_bounded_witness:
  "(1::int) \<le> 2 \<and>
   run_sql (quiet_world three_rows) accepted_text 2 fresh_store =
     (Inr (Success 7 3 2 [py ''id''] [[(py ''id'', 1)], [(py ''id'', 2)]]),
      \<lparr>open_conns = 0,
       calls = [Connect, SetAutocommit, OpenCursor,
         Execute (accepted_text @ [92, 110] @ py ''LIMIT 2;''),
         FetchAll, CloseCursor, CloseConn]\<rparr>) \<and>
   length [[(py ''id'', 1::nat)], [(py ''id'', 2)]] \<le> nat 2 \<and>
   length [[(py ''id'', 1::nat)], [(py ''id'', 2)]] = min 3 (nat 2)"
proof -
  have l: "(1::int) \<le> 2" by simp
  have r: "run_sql (quiet_world three_rows) accepted_text 2 fresh_store =
     (Inr (Success 7 3 2 [py ''id''] [[(py ''id'', 1)], [(py ''id'', 2)]]),
      \<lparr>open_conns = 0,
       calls = [Connect, SetAutocommit, OpenCursor,
         Execute (accepted_text @ [92, 110] @ py ''LIMIT 2;''),
         FetchAll, CloseCursor, CloseConn]\<rparr>)"
    by (simp add: run_unfold guard_accepted_text force_limit_accepted_text str_int_2
        quiet_world_def three_rows_def fresh_store_def slice_to_def py_def)
  from preview_bounded [OF l r] l r show ?thesis by simp
qed

text \<open>
  Claim C5. No call of \<^verbatim>\<open>run_sql\<close> leaks a connection. When \<^verbatim>\<open>connect\<close> has
  returned a connection, \<^verbatim>\<open>close\<close> is called on it once, as the last call made to
  the data store before \<^verbatim>\<open>run_sql\<close> returns, whether the statement ran or a call
  in between raised; and unless \<^verbatim>\<open>close\<close> itself raises, as many connections are
  open after the call as before it, on every path.
\<close>

theorem connection_released:
  "(close_fault w = None \<longrightarrow> open_conns (snd (run_sql w t limit st)) = open_conns st) \<and>
   (driver_loaded w \<and> (\<exists>sql. guard_sql t = Inr sql) \<and> connect_fault w = None \<longrightarrow>
      (\<exists>evs. calls (snd (run_sql w t limit st)) = calls st @ Connect # evs @ [CloseConn] \<and>
         Connect \<notin> set evs \<and> CloseConn \<notin> set evs))"
  by (auto simp: run_unfold Let_def split: if_splits sum.splits option.splits)

theorem connection_released_witness:
  "close_fault rejecting_world = None \<and> driver_loaded rejecting_world \<and>
   guard_sql accepted_text = Inr accepted_text \<and> connect_fault rejecting_world = None \<and>
   open_conns (snd (run_sql rejecting_world accepted_text 10 fresh_store)) = open_conns fresh_store \<and>
   calls (snd (run_sql rejecting_world accepted_text 10 fresh_store)) =
     calls fresh_store @ Connect #
       [SetAutocommit, OpenCursor, Execute (accepted_text @ [92, 110] @ py ''LIMIT 10;''),
        CloseCursor] @ [CloseConn]"
proof -
  have h: "close_fault rejecting_world = None" "driver_loaded rejecting_world"
      "connect_fault rejecting_world = None"
    by (simp_all add: rejecting_world_def quiet_world_def)
  have c: "calls (snd (run_sql rejecting_world accepted_text 10 fresh_store)) =
     calls fresh_store @ Connect #
       [SetAutocommit, OpenCursor, Execute (accepted_text @ [92, 110] @ py ''LIMIT 10;''),
        CloseCursor] @ [CloseConn]"
    by (simp add: run_unfold guard_accepted_text force_limit_accepted_text str_int_10
        rejecting_world_def quiet_world_def fresh_store_def py_def)
  from connection_released [of rejecting_world accepted_text 10 fresh_store] h
  have "open_conns (snd (run_sql rejecting_world accepted_text 10 fresh_store)) = open_conns fresh_store"
    by blast
  with h c guard_accepted_text show ?thesis by blast
qed

text \<open>
  Claim C6. For every text the guard accepted, when \<^verbatim>\<open>connect\<close>, the assignment to
  \<^verbatim>\<open>autocommit\<close>, \<^verbatim>\<open>cursor\<close>, \<^verbatim>\<open>execute\<close> or \<^verbatim>\<open>fetchall\<close> raises,
  \<^verbatim>\<open>run_sql\<close> returns the error dictionary that holds the text of that exception.
  It never raises for such a text, and it makes every call to the data store at most
  once, sending no statement but the one it built: there is no second attempt.
\<close>

theorem store_fault_becomes_failure:
  assumes "driver_loaded w" and "guard_sql t = Inr sql0"
  shows "(connect_fault w = Some m \<longrightarrow> fst (run_sql w t limit st) = Inr (Failure (DbError m))) \<and>
         (connect_fault w = None \<and> autocommit_fault w = Some m \<longrightarrow>
            fst (run_sql w t limit st) = Inr (Failure (DbError m))) \<and>
         (connect_fault w = None \<and> autocommit_fault w = None \<and> cursor_fault w = Some m \<longrightarrow>
            fst (run_sql w t limit st) = Inr (Failure (DbError m))) \<and>
         (connect_fault w = None \<and> autocommit_fault w = None \<and> cursor_fault w = None \<and>
          execute_fault w (force_limit sql0 limit) = Some m \<longrightarrow>
            fst (run_sql w t limit st) = Inr (Failure (DbError m))) \<and>
         (connect_fault w = None \<and> autocommit_fault w = None \<and> cursor_fault w = None \<and>
          execute_fault w (force_limit sql0 limit) = None \<and>
          fetchall_result w (force_limit sql0 limit) = Inl m \<longrightarrow>
            fst (run_sql w t limit st) = Inr (Failure (DbError m))) \<and>
         (\<exists>ret. fst (run_sql w t limit st) = Inr ret) \<and>
         (\<exists>evs. calls (snd (run_sql w t limit st)) = calls st @ evs \<and> distinct evs \<and>
            set evs \<subseteq> {Connect, SetAutocommit, OpenCursor, Execute (force_limit sql0 limit),
              FetchAll, CloseCursor, CloseConn})"
  using assms
  by (auto simp: run_unfold Let_def split: if_splits sum.splits option.splits)

theorem store_fault_becomes_failure_witness:
  "driver_loaded refusing_world \<and> driver_loaded rejecting_world \<and>
   driver_loaded broken_fetch_world \<and> guard_sql accepted_text = Inr accepted_text \<and>
   connect_fault refusing_world = Some (py ''connection refused'') \<and>
   fst (run_sql refusing_world accepted_text 10 fresh_store) =
     Inr (Failure (DbError (py ''connection refused''))) \<and>
   execute_fault rejecting_world (force_limit accepted_text 10) = Some (py ''syntax error'') \<and>
   fst (run_sql rejecting_world accepted_text 10 fresh_store) =
     Inr (Failure (DbError (py ''syntax error''))) \<and>
   fetchall_result broken_fetch_world (force_limit accepted_text 10) = Inl (py ''server closed'') \<and>
   fst (run_sql broken_fetch_world accepted_text 10 fresh_store) =
     Inr (Failure (DbError (py ''server closed'')))"
proof -
  have d: "driver_loaded refusing_world" "driver_loaded rejecting_world"
      "driver_loaded broken_fetch_world"
    by (simp_all add: refusing_world_def rejecting_world_def broken_fetch_world_def
        quiet_world_def)
  have a: "connect_fault refusing_world = Some (py ''connection refused'')"
    by (simp add: refusing_world_def)
  have b: "connect_fault rejecting_world = None \<and> autocommit_fault rejecting_world = None \<and>
      cursor_fault rejecting_world = None \<and>
      execute_fault rejecting_world (force_limit accepted_text 10) = Some (py ''syntax error'')"
    by (simp add: rejecting_world_def quiet_world_def)
  have c: "connect_fault broken_fetch_world = None \<and> autocommit_fault broken_fetch_world = None \<and>
      cursor_fault broken_fetch_world = None \<and>
      execute_fault broken_fetch_world (force_limit accepted_text 10) = None \<and>
      fetchall_result broken_fetch_world (force_limit accepted_text 10) = Inl (py ''server closed'')"
    by (simp add: broken_fetch_world_def quiet_world_def)
  have ra: "fst (run_sql refusing_world accepted_text 10 fresh_store) =
      Inr (Failure (DbError (py ''connection refused'')))"
    using store_fault_becomes_failure [OF d(1) guard_accepted_text,
        where m = "py ''connection refused''" and limit = 10 and st = fresh_store] a by blast
  have rb: "fst (run_sql rejecting_world accepted_text 10 fresh_store) =
      Inr (Failure (DbError (py ''syntax error'')))"
    using store_fault_becomes_failure [OF d(2) guard_accepted_text,
        where m = "py ''syntax error''" and limit = 10 and st = fresh_store] b by blast
  have rc: "fst (run_sql broken_fetch_world accepted_text 10 fresh_store) =
      Inr (Failure (DbError (py ''server closed'')))"
    using store_fault_becomes_failure [OF d(3) guard_accepted_text,
        where m = "py ''server closed''" and limit = 10 and st = fresh_store] c by blast
  from d a b c ra rb rc guard_accepted_text show ?thesis by blast
qed

text \<open>
  Claim C4 says that an accepted text which holds the word LIMIT is executed
  unchanged, and that otherwise a line feed and a LIMIT clause are appended. The source
  does not do so: its pattern looks for \<^verbatim>\<open>limit\<close> between a backslash-b on either
  side, and what it appends starts with a backslash and the letter n. The accepted text
  below ends in \<^verbatim>\<open>LIMIT 5\<close>; the statement sent to the data store is that text
  followed by \<^verbatim>\<open>\nLIMIT 500;\<close>.
\<close>

theorem second_limit_appended:
  "calls (snd (run_sql (quiet_world []) (accepted_text @ py '' LIMIT 5'') 500 fresh_store)) =
     [Connect, SetAutocommit, OpenCursor,
      Execute (accepted_text @ py '' LIMIT 5'' @ [92, 110] @ py ''LIMIT 500;''),
      FetchAll, CloseCursor, CloseConn]"
proof -
  have g: "guard_sql (accepted_text @ py '' LIMIT 5'') = Inr (accepted_text @ py '' LIMIT 5'')"
    by (simp add: guard_sql_def accepted_text_def rx_eval strip_def is_space_def)
  have f: "force_limit (accepted_text @ py '' LIMIT 5'') 500 =
      accepted_text @ py '' LIMIT 5'' @ [92, 110] @ py ''LIMIT 500;''"
    by (simp add: force_limit_def accepted_text_def rx_eval rstrip_semicolons_def
        str_int_def digits.simps)
  show ?thesis
    by (simp add: run_unfold g f quiet_world_def fresh_store_def)
qed

end
